theory Spec2Isabelle
  imports Main "HOL-Library.Word"
begin

unbundle bit_operations_syntax

section \<open>The abstract hardware model (abstract_hardware_model.h)\<close>

text \<open>
  A shallow embedding of the C++ header \<^verbatim>\<open>src/abstract_hardware_model.h\<close>.
  Classes are records, member functions take the object as their last argument and
  return the updated object, \<^verbatim>\<open>unsigned\<close> is a 32-bit word, \<^verbatim>\<open>unsigned long long\<close>
  and \<^verbatim>\<open>size_t\<close> are 64-bit words, pointers are natural numbers with \<open>0\<close> for the null
  pointer. A failed \<^verbatim>\<open>assert\<close>, an exception of the standard library and an access
  with undefined behaviour are values of the type \<open>error\<close>.
\<close>

subsection \<open>Basic types\<close>

type_synonym unsigned = "32 word"
type_synonym address_type = "32 word"
type_synonym addr_t = "32 word"
type_synonym new_addr_type = "64 word"
type_synonym size_t = "64 word"
type_synonym byte = "8 word"
type_synonym pointer = nat

abbreviation (input) NULL :: pointer where
  "NULL \<equiv> 0"

datatype error =
    AssertionFailed       \<comment> \<open>\<^verbatim>\<open>assert(...)\<close> with a false condition\<close>
  | OutOfRange            \<comment> \<open>\<^verbatim>\<open>std::out_of_range\<close>, thrown by \<^verbatim>\<open>bitset::test\<close> and \<^verbatim>\<open>bitset::set\<close>\<close>
  | UndefinedBehaviour    \<comment> \<open>\<^verbatim>\<open>operator[]\<close> past the end, a shift by the width of the type,
                               a call through a null function pointer\<close>

definition and_then :: "error + 'a \<Rightarrow> ('a \<Rightarrow> error + 'b) \<Rightarrow> error + 'b" where
  "and_then m f = (case m of Inl e \<Rightarrow> Inl e | Inr v \<Rightarrow> f v)"

datatype uarch_op_t =
    NO_OP | ALU_OP | SFU_OP | ALU_SFU_OP | LOAD_OP | STORE_OP
  | BRANCH_OP | BARRIER_OP | MEMORY_BARRIER_OP

datatype enum_memory_space_t =
    undefined_space | reg_space | local_space | shared_space
  | param_space_unclassified | param_space_kernel | param_space_local
  | const_space | tex_space | surf_space | global_space | generic_space
  | instruction_space

text \<open>The integer value of each enumerator: the first is 0, each next one is one more.\<close>

fun memory_space_value :: "enum_memory_space_t \<Rightarrow> int" where
  "memory_space_value undefined_space = 0"
| "memory_space_value reg_space = 1"
| "memory_space_value local_space = 2"
| "memory_space_value shared_space = 3"
| "memory_space_value param_space_unclassified = 4"
| "memory_space_value param_space_kernel = 5"
| "memory_space_value param_space_local = 6"
| "memory_space_value const_space = 7"
| "memory_space_value tex_space = 8"
| "memory_space_value surf_space = 9"
| "memory_space_value global_space = 10"
| "memory_space_value generic_space = 11"
| "memory_space_value instruction_space = 12"

datatype enum_memory_op_t = no_memory_op | memory_load | memory_store

subsection \<open>dim3 and kernel_info_t\<close>

record dim3 =
  x :: unsigned
  y :: unsigned
  z :: unsigned

record kernel_info_t =
  m_valid :: bool
  m_kernel_entry :: pointer
  m_grid_dim :: dim3
  m_block_dim :: dim3
  m_next_cta :: dim3
  m_next_tid :: dim3

text \<open>
  The default constructor writes two fields only; the four \<^verbatim>\<open>dim3\<close> members keep what the
  storage held before, which is the argument \<open>raw\<close>.
\<close>

definition kernel_info_t_default :: "kernel_info_t \<Rightarrow> kernel_info_t" where
  "kernel_info_t_default raw = raw\<lparr>m_valid := False, m_kernel_entry := NULL\<rparr>"

definition kernel_info_t_ctor :: "dim3 \<Rightarrow> dim3 \<Rightarrow> pointer \<Rightarrow> kernel_info_t" where
  "kernel_info_t_ctor gridDim blockDim entry =
     (let next_cta = \<lparr>x = 0, y = 0, z = 0\<rparr>
      in \<lparr>m_valid = True, m_kernel_entry = entry, m_grid_dim = gridDim,
          m_block_dim = blockDim, m_next_cta = next_cta, m_next_tid = next_cta\<rparr>)"

definition entry :: "kernel_info_t \<Rightarrow> pointer" where
  "entry k = m_kernel_entry k"

text \<open>
  The product is computed on \<^verbatim>\<open>unsigned int\<close> operands, so in 32 bits; the conversion to
  \<^verbatim>\<open>size_t\<close> applies to the result.
\<close>

definition num_blocks :: "kernel_info_t \<Rightarrow> size_t" where
  "num_blocks k = ucast (x (m_grid_dim k) * y (m_grid_dim k) * z (m_grid_dim k))"

definition threads_per_cta :: "kernel_info_t \<Rightarrow> size_t" where
  "threads_per_cta k = ucast (x (m_block_dim k) * y (m_block_dim k) * z (m_block_dim k))"

definition get_grid_dim :: "kernel_info_t \<Rightarrow> dim3" where
  "get_grid_dim k = m_grid_dim k"

definition get_cta_dim :: "kernel_info_t \<Rightarrow> dim3" where
  "get_cta_dim k = m_block_dim k"

definition get_next_cta_id :: "kernel_info_t \<Rightarrow> dim3" where
  "get_next_cta_id k = m_next_cta k"

definition no_more_ctas_to_run :: "kernel_info_t \<Rightarrow> bool" where
  "no_more_ctas_to_run k \<longleftrightarrow>
     x (m_next_cta k) \<ge> x (m_grid_dim k) \<or> y (m_next_cta k) \<ge> y (m_grid_dim k)
       \<or> z (m_next_cta k) \<ge> z (m_grid_dim k)"

definition get_next_thread_id_3d :: "kernel_info_t \<Rightarrow> dim3" where
  "get_next_thread_id_3d k = m_next_tid k"

definition get_next_thread_id :: "kernel_info_t \<Rightarrow> unsigned" where
  "get_next_thread_id k =
     x (m_next_tid k) + x (m_block_dim k) * y (m_next_tid k)
       + x (m_block_dim k) * y (m_block_dim k) * z (m_next_tid k)"

text \<open>The third conjunct compares the z coordinate with the x extent, as the source does.\<close>

definition more_threads_in_cta :: "kernel_info_t \<Rightarrow> bool" where
  "more_threads_in_cta k \<longleftrightarrow>
     z (m_next_tid k) < z (m_block_dim k) \<and> y (m_next_tid k) < y (m_block_dim k)
       \<and> z (m_next_tid k) < x (m_block_dim k)"

text \<open>
  The predicate as the specification words it, each coordinate below the extent of its
  own axis. It is not taken from the source; \<open>more_threads_in_cta\<close> is compared with it.
\<close>

definition tid_inside_block :: "kernel_info_t \<Rightarrow> bool" where
  "tid_inside_block k \<longleftrightarrow>
     x (m_next_tid k) < x (m_block_dim k) \<and> y (m_next_tid k) < y (m_block_dim k)
       \<and> z (m_next_tid k) < z (m_block_dim k)"

subsection \<open>memory_space_t\<close>

record memory_space_t =
  m_type :: enum_memory_space_t
  m_bank :: unsigned

definition memory_space_t_default :: memory_space_t where
  "memory_space_t_default = \<lparr>m_type = undefined_space, m_bank = 0\<rparr>"

definition memory_space_t_ctor :: "enum_memory_space_t \<Rightarrow> memory_space_t" where
  "memory_space_t_ctor from = \<lparr>m_type = from, m_bank = 0\<rparr>"

text \<open>\<^verbatim>\<open>operator==\<close>, \<^verbatim>\<open>operator!=\<close> and \<^verbatim>\<open>operator<\<close>; enumerators compare by value.\<close>

definition memory_space_t_eq :: "memory_space_t \<Rightarrow> memory_space_t \<Rightarrow> bool" where
  "memory_space_t_eq this that \<longleftrightarrow>
     m_bank this = m_bank that
       \<and> memory_space_value (m_type this) = memory_space_value (m_type that)"

definition memory_space_t_neq :: "memory_space_t \<Rightarrow> memory_space_t \<Rightarrow> bool" where
  "memory_space_t_neq this that \<longleftrightarrow> \<not> memory_space_t_eq this that"

definition memory_space_t_less :: "memory_space_t \<Rightarrow> memory_space_t \<Rightarrow> bool" where
  "memory_space_t_less this that =
     (if memory_space_value (m_type this) < memory_space_value (m_type that) then True
      else if memory_space_value (m_type this) > memory_space_value (m_type that) then False
      else if m_bank this < m_bank that then True
      else False)"

definition get_type :: "memory_space_t \<Rightarrow> enum_memory_space_t" where
  "get_type s = m_type s"

definition get_bank :: "memory_space_t \<Rightarrow> unsigned" where
  "get_bank s = m_bank s"

definition set_bank :: "unsigned \<Rightarrow> memory_space_t \<Rightarrow> memory_space_t" where
  "set_bank b s = s\<lparr>m_bank := b\<rparr>"

subsection \<open>dram_callback_t and inst_t\<close>

record dram_callback_t =
  function_ptr :: pointer      \<comment> \<open>the member \<^verbatim>\<open>function\<close>\<close>
  instruction :: pointer
  thread :: pointer

definition dram_callback_t_ctor :: dram_callback_t where
  "dram_callback_t_ctor = \<lparr>function_ptr = NULL, instruction = NULL, thread = NULL\<rparr>"

abbreviation (input) MAX_REG_OPERANDS :: nat where
  "MAX_REG_OPERANDS \<equiv> 8"

abbreviation (input) MAX_WARP_SIZE :: unsigned where
  "MAX_WARP_SIZE \<equiv> 32"

text \<open>
  \<^verbatim>\<open>memset\<close> works on bytes. An \<^verbatim>\<open>unsigned\<close> occupies \<open>sizeof_unsigned = 4\<close> bytes, least
  significant byte first; an array of them is the concatenation of its elements' bytes.
  The count of every \<^verbatim>\<open>memset\<close> call in this file is below the size of the object,
  so no write leaves it.
\<close>

definition sizeof_unsigned :: nat where
  "sizeof_unsigned = 4"

definition unsigned_to_bytes :: "unsigned \<Rightarrow> byte list" where
  "unsigned_to_bytes w =
     [ucast w, ucast (drop_bit 8 w), ucast (drop_bit 16 w), ucast (drop_bit 24 w)]"

fun bytes_to_unsigned :: "byte list \<Rightarrow> unsigned" where
  "bytes_to_unsigned [] = 0"
| "bytes_to_unsigned (b # bs) = ucast b OR push_bit 8 (bytes_to_unsigned bs)"

definition array_to_bytes :: "unsigned list \<Rightarrow> byte list" where
  "array_to_bytes xs = concat (map unsigned_to_bytes xs)"

fun bytes_to_array :: "byte list \<Rightarrow> unsigned list" where
  "bytes_to_array (b0 # b1 # b2 # b3 # bs) = bytes_to_unsigned [b0, b1, b2, b3] # bytes_to_array bs"
| "bytes_to_array bs = []"

definition memset :: "byte list \<Rightarrow> byte \<Rightarrow> nat \<Rightarrow> byte list" where
  "memset s c n = replicate n c @ drop n s"

definition memset_array :: "unsigned list \<Rightarrow> byte \<Rightarrow> nat \<Rightarrow> unsigned list" where
  "memset_array xs c n = bytes_to_array (memset (array_to_bytes xs) c n)"

record inst_t =
  pc :: address_type
  isize :: unsigned
  op :: uarch_op_t
  memory_op :: enum_memory_op_t
  out :: "unsigned list"         \<comment> \<open>\<^verbatim>\<open>unsigned out[4]\<close>\<close>
  in' :: "unsigned list"         \<comment> \<open>\<^verbatim>\<open>unsigned in[4]\<close>\<close>
  is_vectorin :: byte
  is_vectorout :: byte
  pred :: "32 word"
  ar1 :: "32 word"
  ar2 :: "32 word"
  arch_reg :: "32 word list"     \<comment> \<open>\<^verbatim>\<open>int arch_reg[MAX_REG_OPERANDS]\<close>\<close>
  cycles :: unsigned
  data_size :: unsigned
  space :: memory_space_t
  m_decoded :: bool

text \<open>
  The constructor runs on storage whose content is not determined: \<open>raw\<close> is that
  storage, and a member the constructor does not write keeps its value from \<open>raw\<close>.
\<close>

definition inst_t_ctor :: "'a inst_t_scheme \<Rightarrow> 'a inst_t_scheme" where
  "inst_t_ctor raw =
     raw\<lparr>m_decoded := False,
         pc := - 1,
         op := NO_OP,
         out := memset_array (out raw) 0 sizeof_unsigned,
         in' := memset_array (in' raw) 0 sizeof_unsigned,
         is_vectorin := 0,
         is_vectorout := 0,
         space := memory_space_t_default,
         cycles := 0,
         arch_reg := fold (\<lambda>i regs. regs[i := - 1]) [0 ..< MAX_REG_OPERANDS] (arch_reg raw),
         isize := 0\<rparr>"

definition valid :: "'a inst_t_scheme \<Rightarrow> bool" where
  "valid i = m_decoded i"

subsection \<open>warp_inst_t\<close>

record per_thread_info =
  callback :: dram_callback_t
  memreqaddr :: new_addr_type
  cache_miss :: bool

definition per_thread_info_ctor :: per_thread_info where
  "per_thread_info_ctor =
     \<lparr>callback = dram_callback_t_ctor, memreqaddr = 0, cache_miss = False\<rparr>"

record warp_inst_t = inst_t +
  m_empty :: bool
  issue_cycle :: "64 word"
  m_isatomic :: bool
  m_warp_id :: unsigned
  m_warp_size :: unsigned
  warp_active_mask :: "32 word"       \<comment> \<open>\<^verbatim>\<open>std::bitset<MAX_WARP_SIZE>\<close>, bit \<open>i\<close> is lane \<open>i\<close>\<close>
  m_per_scalar_thread_valid :: bool
  m_per_scalar_thread :: "per_thread_info list"

text \<open>
  The base constructor runs first, the bitset and the vector are default-constructed (no
  bit set, no element), then the body checks the width and writes four members.
  \<open>m_warp_id\<close> and \<open>issue_cycle\<close> are not written.
\<close>

definition warp_inst_t_ctor :: "unsigned \<Rightarrow> warp_inst_t \<Rightarrow> error + warp_inst_t" where
  "warp_inst_t_ctor warp_size raw =
     (let w = (inst_t_ctor raw)\<lparr>warp_active_mask := 0, m_per_scalar_thread := []\<rparr>
      in if warp_size \<le> MAX_WARP_SIZE
         then Inr (w\<lparr>m_warp_size := warp_size, m_empty := True, m_isatomic := False,
                     m_per_scalar_thread_valid := False\<rparr>)
         else Inl AssertionFailed)"

text \<open>
  \<^verbatim>\<open>std::vector::resize(n)\<close>: the first \<open>n\<close> elements stay, missing ones are
  default-constructed.
\<close>

definition resize :: "nat \<Rightarrow> per_thread_info list \<Rightarrow> per_thread_info list" where
  "resize n v = take n v @ replicate (n - length v) per_thread_info_ctor"

text \<open>
  The callbacks \<^verbatim>\<open>do_atomic\<close> runs are outside this file; what \<^verbatim>\<open>do_atomic\<close> does is the
  sequence of calls it makes, each with the function called and its two arguments. The
  source tests \<open>thread\<close> only and then calls through \<open>function\<close>: when that pointer is
  null the call is undefined, the loop stops there and \<^verbatim>\<open>do_atomic\<close> does not return.
\<close>

datatype invocation = Invoke pointer pointer pointer

definition invocation_of :: "per_thread_info \<Rightarrow> invocation" where
  "invocation_of t =
     (let cb = callback t in Invoke (function_ptr cb) (instruction cb) (thread cb))"

fun do_atomic_loop ::
  "per_thread_info list \<Rightarrow> invocation list \<Rightarrow> error + invocation list" where
  "do_atomic_loop [] calls = Inr calls"
| "do_atomic_loop (t # ts) calls =
     (let cb = callback t
      in if thread cb \<noteq> NULL
         then if function_ptr cb = NULL then Inl UndefinedBehaviour
              else do_atomic_loop ts
                     (calls @ [Invoke (function_ptr cb) (instruction cb) (thread cb)])
         else do_atomic_loop ts calls)"

definition do_atomic :: "warp_inst_t \<Rightarrow> error + invocation list" where
  "do_atomic w =
     (if m_isatomic w \<and> \<not> m_empty w
      then do_atomic_loop (m_per_scalar_thread w) []
      else Inl AssertionFailed)"

text \<open>
  The elements of the per-lane array that \<^verbatim>\<open>do_atomic\<close> can call: a null \<open>thread\<close>, or a
  function to call.
\<close>

definition callable :: "per_thread_info \<Rightarrow> bool" where
  "callable t \<longleftrightarrow> thread (callback t) = NULL \<or> function_ptr (callback t) \<noteq> NULL"

definition clear :: "warp_inst_t \<Rightarrow> warp_inst_t" where
  "clear w = w\<lparr>m_empty := True\<rparr>"

text \<open>
  The loop of \<^verbatim>\<open>issue\<close> runs \<open>i\<close> from \<open>(int)m_warp_size - 1\<close> down to \<open>0\<close>;
  \<open>issue_loop (Suc i)\<close> is the iteration at index \<open>i\<close> followed by the remaining ones.
  \<^verbatim>\<open>1<<i\<close> is a shift of an \<^verbatim>\<open>int\<close>, undefined from \<open>i = 32\<close> on; at \<open>i = 31\<close> it is taken
  as the bit pattern with bit 31 set, which the conversion to \<^verbatim>\<open>unsigned\<close> keeps.
  A width whose cast to \<^verbatim>\<open>int\<close> is negative gives no iteration; the constructor admits
  no width above \<open>MAX_WARP_SIZE\<close>.
\<close>

fun issue_loop :: "nat \<Rightarrow> unsigned \<Rightarrow> 32 word \<Rightarrow> error + 32 word" where
  "issue_loop 0 lanes bits = Inr bits"
| "issue_loop (Suc i) lanes bits =
     (if 32 \<le> i then Inl UndefinedBehaviour
      else issue_loop i lanes (if lanes AND push_bit i 1 \<noteq> 0 then set_bit i bits else bits))"

definition issue :: "unsigned \<Rightarrow> unsigned \<Rightarrow> 64 word \<Rightarrow> warp_inst_t \<Rightarrow> error + warp_inst_t" where
  "issue lanes warp_id cycle w =
     (case issue_loop (nat (sint (m_warp_size w))) lanes (warp_active_mask w) of
        Inl e \<Rightarrow> Inl e
      | Inr bits \<Rightarrow>
          Inr (w\<lparr>warp_active_mask := bits, m_warp_id := warp_id, issue_cycle := cycle,
                 m_empty := False\<rparr>))"

text \<open>
  Both modifiers of the per-lane array allocate it when it is not yet valid; only
  \<^verbatim>\<open>add_callback\<close> sets \<open>m_isatomic\<close>, and it does so inside that branch. The index is
  not checked by \<^verbatim>\<open>operator[]\<close>: past the end the access is undefined.
\<close>

definition set_addr :: "unsigned \<Rightarrow> new_addr_type \<Rightarrow> warp_inst_t \<Rightarrow> error + warp_inst_t" where
  "set_addr n addr w =
     (let w1 = (if \<not> m_per_scalar_thread_valid w
                then w\<lparr>m_per_scalar_thread :=
                          resize (unat (m_warp_size w)) (m_per_scalar_thread w),
                       m_per_scalar_thread_valid := True\<rparr>
                else w);
          v = m_per_scalar_thread w1
      in if unat n < length v
         then Inr (w1\<lparr>m_per_scalar_thread := v[unat n := (v ! unat n)\<lparr>memreqaddr := addr\<rparr>]\<rparr>)
         else Inl UndefinedBehaviour)"

definition add_callback ::
  "unsigned \<Rightarrow> pointer \<Rightarrow> pointer \<Rightarrow> pointer \<Rightarrow> warp_inst_t \<Rightarrow> error + warp_inst_t" where
  "add_callback lane_id fn inst thr w =
     (let w1 = (if \<not> m_per_scalar_thread_valid w
                then w\<lparr>m_per_scalar_thread :=
                          resize (unat (m_warp_size w)) (m_per_scalar_thread w),
                       m_per_scalar_thread_valid := True,
                       m_isatomic := True\<rparr>
                else w);
          v = m_per_scalar_thread w1
      in if unat lane_id < length v
         then Inr (w1\<lparr>m_per_scalar_thread :=
                        v[unat lane_id := (v ! unat lane_id)\<lparr>callback :=
                            \<lparr>function_ptr = fn, instruction = inst, thread = thr\<rparr>\<rparr>]\<rparr>)
         else Inl UndefinedBehaviour)"

text \<open>
  \<^verbatim>\<open>active\<close> uses \<^verbatim>\<open>bitset::test\<close>, which throws past the last bit; \<^verbatim>\<open>has_callback\<close> uses
  \<^verbatim>\<open>bitset::operator[]\<close>, which does not check. \<^verbatim>\<open>&&\<close> evaluates left to right and
  stops at the first false operand.
\<close>

definition active :: "unsigned \<Rightarrow> warp_inst_t \<Rightarrow> error + bool" where
  "active thr w =
     (if unat thr < 32 then Inr (bit (warp_active_mask w) (unat thr)) else Inl OutOfRange)"

definition empty :: "warp_inst_t \<Rightarrow> bool" where
  "empty w = m_empty w"

definition warp_id :: "warp_inst_t \<Rightarrow> error + unsigned" where
  "warp_id w = (if \<not> m_empty w then Inr (m_warp_id w) else Inl AssertionFailed)"

definition has_callback :: "unsigned \<Rightarrow> warp_inst_t \<Rightarrow> error + bool" where
  "has_callback n w =
     (if \<not> unat n < 32 then Inl UndefinedBehaviour
      else if \<not> bit (warp_active_mask w) (unat n) then Inr False
      else if \<not> m_per_scalar_thread_valid w then Inr False
      else if \<not> unat n < length (m_per_scalar_thread w) then Inl UndefinedBehaviour
      else Inr (function_ptr (callback (m_per_scalar_thread w ! unat n)) \<noteq> NULL))"

definition get_addr :: "unsigned \<Rightarrow> warp_inst_t \<Rightarrow> error + new_addr_type" where
  "get_addr n w =
     (if \<not> m_per_scalar_thread_valid w then Inl AssertionFailed
      else if \<not> unat n < length (m_per_scalar_thread w) then Inl UndefinedBehaviour
      else Inr (memreqaddr (m_per_scalar_thread w ! unat n)))"

definition isatomic :: "warp_inst_t \<Rightarrow> bool" where
  "isatomic w = m_isatomic w"

text \<open>
  The objects the operations can produce from a constructed instruction satisfy:
  the width is at most \<open>MAX_WARP_SIZE\<close>, and the per-lane array, once valid, has one
  element per lane.
\<close>

definition warp_inst_inv :: "warp_inst_t \<Rightarrow> bool" where
  "warp_inst_inv w \<longleftrightarrow>
     m_warp_size w \<le> MAX_WARP_SIZE
       \<and> (m_per_scalar_thread_valid w \<longrightarrow>
            length (m_per_scalar_thread w) = unat (m_warp_size w))"

text \<open>Storage filled with zero bytes, as a concrete content for the constructors to run on.\<close>

definition zeroed_storage :: warp_inst_t where
  "zeroed_storage =
     \<lparr>pc = 0, isize = 0, op = NO_OP, memory_op = no_memory_op,
      out = [0, 0, 0, 0], in' = [0, 0, 0, 0], is_vectorin = 0, is_vectorout = 0,
      pred = 0, ar1 = 0, ar2 = 0, arch_reg = [0, 0, 0, 0, 0, 0, 0, 0],
      cycles = 0, data_size = 0, space = memory_space_t_default, m_decoded = False,
      m_empty = False, issue_cycle = 0, m_isatomic = False, m_warp_id = 0,
      m_warp_size = 0, warp_active_mask = 0, m_per_scalar_thread_valid = False,
      m_per_scalar_thread = []\<rparr>"

text \<open>
  Width 4, callbacks registered on lane 1 (thread 9), lane 2 (null thread) and lane 3
  (thread 6), lanes 0 and 1 issued: the calls are those of lane 1 and lane 3.
\<close>

definition atomic_example :: warp_inst_t where
  "atomic_example =
     projr (and_then (and_then (and_then (and_then (warp_inst_t_ctor 4 zeroed_storage)
       (add_callback 1 7 8 9)) (add_callback 2 7 8 NULL)) (add_callback 3 4 5 6)) (issue 3 0 0))"

section \<open>Properties\<close>

subsection \<open>Auxiliary facts\<close>

lemma and_then_Inr [simp]: "and_then (Inr v) f = f v"
  by (simp add: and_then_def)

lemma and_then_Inl [simp]: "and_then (Inl e) f = Inl e"
  by (simp add: and_then_def)

lemma unat_ucast_32_64: "unat (ucast (w :: 32 word) :: 64 word) = unat w"
  by (simp add: unsigned_ucast_eq take_bit_nat_eq_self_iff unsigned_less [of w, THEN less_trans])

lemma memory_space_value_inj:
  "memory_space_value a = memory_space_value b \<longleftrightarrow> a = b"
  by (cases a; cases b; simp)

text \<open>Four bytes read back as the word they were taken from.\<close>

lemma bytes_to_unsigned_to_bytes: "bytes_to_unsigned (unsigned_to_bytes w) = w"
  unfolding unsigned_to_bytes_def
  apply (rule bit_eqI)
  apply (auto simp: bit_simps)
  apply (rule ccontr, simp add: not_less)
  done

text \<open>
  A \<^verbatim>\<open>memset\<close> of \<open>sizeof_unsigned\<close> zero bytes over a four-element array clears the first
  element and nothing else.
\<close>

lemma memset_array_first:
  assumes len: "length xs = 4"
  shows "memset_array xs 0 sizeof_unsigned = 0 # tl xs"
proof -
  from len obtain a b c d where xs: "xs = [a, b, c, d]"
    by (cases xs; simp; rename_tac xs1; case_tac xs1; simp; rename_tac xs2; case_tac xs2; simp;
        rename_tac xs3; case_tac xs3; simp)
  have step: "bytes_to_array (unsigned_to_bytes w @ bs) = w # bytes_to_array bs" for w bs
    using bytes_to_unsigned_to_bytes [of w] by (simp add: unsigned_to_bytes_def)
  have last: "bytes_to_array (unsigned_to_bytes w) = [w]" for w
    using step [of w "[]"] by simp
  have "memset (array_to_bytes xs) 0 sizeof_unsigned
          = [0, 0, 0, 0] @ unsigned_to_bytes b @ unsigned_to_bytes c @ unsigned_to_bytes d"
    by (simp add: xs memset_def array_to_bytes_def sizeof_unsigned_def unsigned_to_bytes_def
        numeral_eq_Suc)
  then have "memset_array xs 0 sizeof_unsigned
          = bytes_to_unsigned [0, 0, 0, 0]
              # bytes_to_array (unsigned_to_bytes b @ unsigned_to_bytes c @ unsigned_to_bytes d)"
    by (simp add: memset_array_def)
  then show ?thesis
    by (simp add: step last xs)
qed

lemma le_32_unat: "(w :: 32 word) \<le> 32 \<longleftrightarrow> unat w \<le> 32"
  by (simp add: word_le_nat_alt)

text \<open>For a width the constructor accepts, the cast to \<^verbatim>\<open>int\<close> keeps the value.\<close>

lemma sint_small:
  assumes "(w :: 32 word) \<le> 32"
  shows "nat (sint w) = unat w"
proof -
  from assms have "uint w \<le> 32" by (simp add: word_le_def)
  moreover have "- 2147483648 \<le> uint w" using uint_ge_0 [of w] by linarith
  ultimately have "sint w = uint w"
    by (simp add: sint_uint signed_take_bit_int_eq_self_iff)
  then show ?thesis by (simp only: unat_eq_nat_uint)
qed

lemma issue_test_bit: "(lanes AND 2 ^ i = 0) \<longleftrightarrow> \<not> bit lanes i" for lanes :: "32 word"
  by (simp add: and_exp_eq_0_iff_not_bit)

text \<open>The loop of \<^verbatim>\<open>issue\<close> adds the low \<open>n\<close> bits of its argument to the mask.\<close>

lemma issue_loop_ok:
  "n \<le> 32 \<Longrightarrow> issue_loop n lanes bits = Inr (bits OR take_bit n lanes)"
proof (induction n arbitrary: bits)
  case 0
  then show ?case by simp
next
  case (Suc n)
  have step: "(if bit lanes n then set_bit n bits else bits) OR take_bit n lanes
                = bits OR take_bit (Suc n) lanes"
    by (rule bit_eqI) (auto simp: bit_simps less_Suc_eq dest: bit_imp_le_length)
  from Suc show ?case
    by (simp add: issue_test_bit step)
qed

lemma length_resize [simp]: "length (resize n v) = n"
  by (simp add: resize_def)

lemma resize_eq_Nil [simp]: "resize n v = [] \<longleftrightarrow> n = 0"
  by (auto simp: resize_def)

subsection \<open>The invariant of warp instructions\<close>

text \<open>
  The constructor establishes \<open>warp_inst_inv\<close> and every modifier keeps it, so it holds
  of every warp instruction the operations of the class can produce.
\<close>

lemma ctor_ok:
  "ws \<le> MAX_WARP_SIZE \<Longrightarrow> \<exists>w. warp_inst_t_ctor ws raw = Inr w"
  by (simp add: warp_inst_t_ctor_def Let_def)

lemma warp_inst_t_ctor_result:
  "warp_inst_t_ctor ws raw = Inr w \<Longrightarrow>
     warp_inst_inv w \<and> m_warp_size w = ws \<and> warp_active_mask w = 0 \<and> m_empty w
       \<and> \<not> m_isatomic w \<and> \<not> m_per_scalar_thread_valid w \<and> m_per_scalar_thread w = []"
  by (auto simp: warp_inst_t_ctor_def warp_inst_inv_def Let_def split: if_splits)

lemma issue_result:
  "warp_inst_inv w \<Longrightarrow>
     issue lanes wid cycle w =
       Inr (w\<lparr>warp_active_mask := warp_active_mask w OR take_bit (unat (m_warp_size w)) lanes,
              m_warp_id := wid, issue_cycle := cycle, m_empty := False\<rparr>)"
  by (simp add: issue_def warp_inst_inv_def sint_small issue_loop_ok le_32_unat)

lemma issue_inv:
  "warp_inst_inv w \<Longrightarrow> issue lanes wid cycle w = Inr w' \<Longrightarrow> warp_inst_inv w'"
  by (auto simp: issue_result) (simp add: warp_inst_inv_def)

lemma clear_inv: "warp_inst_inv w \<Longrightarrow> warp_inst_inv (clear w)"
  by (simp add: warp_inst_inv_def clear_def)

lemma set_addr_inv:
  "warp_inst_inv w \<Longrightarrow> set_addr n a w = Inr w' \<Longrightarrow> warp_inst_inv w'"
  by (auto simp: set_addr_def warp_inst_inv_def Let_def split: if_splits)

lemma add_callback_inv:
  "warp_inst_inv w \<Longrightarrow> add_callback n f i t w = Inr w' \<Longrightarrow> warp_inst_inv w'"
  by (auto simp: add_callback_def warp_inst_inv_def Let_def split: if_splits)

lemma lane_in_range:
  "warp_inst_inv w \<Longrightarrow> n < m_warp_size w \<Longrightarrow> unat n < unat (m_warp_size w) \<and> unat n < 32"
  by (auto simp: warp_inst_inv_def word_less_nat_alt word_le_nat_alt)

text \<open>
  The loop of \<^verbatim>\<open>do_atomic\<close> appends one call per element whose \<open>thread\<close> is not null, and
  fails at the first such element whose function pointer is null.
\<close>

lemma do_atomic_loop_eq:
  "do_atomic_loop ts calls =
     (if list_all callable ts
      then Inr (calls @ map invocation_of (filter (\<lambda>t. thread (callback t) \<noteq> NULL) ts))
      else Inl UndefinedBehaviour)"
  by (induction ts arbitrary: calls) (auto simp: Let_def invocation_of_def callable_def)

subsection \<open>clear\<close>

text \<open>
  C1, as the specification states it: after \<^verbatim>\<open>clear()\<close>, \<^verbatim>\<open>empty()\<close> is true and \<^verbatim>\<open>active(i)\<close>
  is false for every lane, also after \<^verbatim>\<open>issue\<close> followed by \<^verbatim>\<open>clear\<close>. The code does not do
  that: on a fresh instruction of width 32, \<^verbatim>\<open>issue(1, 0, 0)\<close> followed by \<^verbatim>\<open>clear()\<close> leaves
  \<^verbatim>\<open>empty()\<close> true and lane 0 active.
\<close>

theorem clear_keeps_lanes_counterexample:
  "and_then (and_then (warp_inst_t_ctor 32 zeroed_storage) (issue 1 0 0)) (Inr \<circ> empty \<circ> clear)
     = Inr True
   \<and> and_then (and_then (warp_inst_t_ctor 32 zeroed_storage) (issue 1 0 0)) (active 0 \<circ> clear)
     = Inr True"
proof -
  obtain w0 where c: "warp_inst_t_ctor 32 zeroed_storage = Inr w0"
    using ctor_ok [of 32 zeroed_storage] by auto
  note r = warp_inst_t_ctor_result [OF c]
  from r have i: "issue 1 0 0 w0 =
      Inr (w0\<lparr>warp_active_mask := warp_active_mask w0 OR take_bit (unat (m_warp_size w0)) 1,
              m_warp_id := 0, issue_cycle := 0, m_empty := False\<rparr>)"
    by (simp add: issue_result)
  show ?thesis
    using r by (simp add: c i empty_def clear_def active_def)
qed

text \<open>
  C1, amended: after \<^verbatim>\<open>clear()\<close>, \<^verbatim>\<open>empty()\<close> returns true, and \<^verbatim>\<open>active(i)\<close> returns what it
  returned before the call, since \<^verbatim>\<open>clear\<close> leaves the active mask as it is. On an instruction
  that was constructed and never issued, \<^verbatim>\<open>active(i)\<close> after \<^verbatim>\<open>clear()\<close> is false for
  every \<open>i\<close> below 32.
\<close>

theorem clear_sets_empty_keeps_mask:
  "empty (clear w) \<and> active i (clear w) = active i w
   \<and> and_then (warp_inst_t_ctor ws raw) (active i \<circ> clear) =
       (if ws \<le> MAX_WARP_SIZE
        then if unat i < 32 then Inr False else Inl OutOfRange
        else Inl AssertionFailed)"
  by (simp add: empty_def clear_def active_def warp_inst_t_ctor_def Let_def)

theorem clear_sets_empty_keeps_mask_witness:
  "empty (clear zeroed_storage)
   \<and> active 3 (clear zeroed_storage) = active 3 zeroed_storage
   \<and> and_then (warp_inst_t_ctor 32 zeroed_storage) (active 3 \<circ> clear) = Inr False"
  using clear_sets_empty_keeps_mask [of zeroed_storage 3 32 zeroed_storage] by simp

subsection \<open>add_callback and isatomic\<close>

text \<open>
  C2, as the specification states it: \<^verbatim>\<open>add_callback\<close> leaves \<^verbatim>\<open>isatomic()\<close> true, also when
  an earlier \<^verbatim>\<open>set_addr\<close> has allocated the per-lane array. The code sets the flag in the
  branch that allocates the array only: on a fresh instruction, \<^verbatim>\<open>set_addr(0, 0)\<close> followed
  by \<^verbatim>\<open>add_callback(0, 1, 2, 3)\<close> leaves \<^verbatim>\<open>isatomic()\<close> false.
\<close>

theorem add_callback_after_set_addr_counterexample:
  "and_then (and_then (and_then (warp_inst_t_ctor 32 zeroed_storage) (set_addr 0 0))
      (add_callback 0 1 2 3)) (Inr \<circ> isatomic) = Inr False"
proof -
  obtain w0 where c: "warp_inst_t_ctor 32 zeroed_storage = Inr w0"
    using ctor_ok [of 32 zeroed_storage] by auto
  note r = warp_inst_t_ctor_result [OF c]
  show ?thesis
    using r by (simp add: c set_addr_def add_callback_def isatomic_def Let_def)
qed

text \<open>
  C2, amended: for every lane \<open>n\<close> below the width, \<^verbatim>\<open>add_callback(n, ...)\<close> returns, and
  afterwards \<^verbatim>\<open>isatomic()\<close> is true exactly when it was true before the call or the per-lane
  array was not yet allocated before the call. When the array was already allocated, by
  \<^verbatim>\<open>set_addr\<close> or by \<^verbatim>\<open>add_callback\<close>, the call leaves \<^verbatim>\<open>isatomic()\<close> as it was.
\<close>

theorem add_callback_isatomic:
  assumes "warp_inst_inv w" and "n < m_warp_size w"
  shows "and_then (add_callback n f i t w) (Inr \<circ> isatomic)
           = Inr (isatomic w \<or> \<not> m_per_scalar_thread_valid w)"
  using lane_in_range [OF assms] assms(1)
  by (auto simp: add_callback_def Let_def isatomic_def warp_inst_inv_def)

theorem add_callback_isatomic_witness:
  "warp_inst_inv (projr (warp_inst_t_ctor 4 zeroed_storage))
   \<and> 1 < m_warp_size (projr (warp_inst_t_ctor 4 zeroed_storage))
   \<and> and_then (add_callback 1 7 8 9 (projr (warp_inst_t_ctor 4 zeroed_storage)))
        (Inr \<circ> isatomic) = Inr True"
proof -
  have h1: "warp_inst_inv (projr (warp_inst_t_ctor 4 zeroed_storage))"
    by code_simp
  have h2: "1 < m_warp_size (projr (warp_inst_t_ctor 4 zeroed_storage))"
    by code_simp
  have h3: "\<not> m_per_scalar_thread_valid (projr (warp_inst_t_ctor 4 zeroed_storage))"
    by code_simp
  from add_callback_isatomic [OF h1 h2, of 7 8 9] h1 h2 h3 show ?thesis
    by simp
qed

subsection \<open>more_threads_in_cta\<close>

text \<open>
  C3: \<^verbatim>\<open>more_threads_in_cta()\<close> is true exactly when the next thread coordinate is below
  the block extent on each of the three axes. The code compares \<open>z\<close> with the \<open>x\<close> extent
  where it should compare \<open>x\<close>: with block extents \<open>(1, 1, 2)\<close> and next thread \<open>(0, 0, 1)\<close>,
  which is inside the block, it returns false; and the \<open>x\<close> coordinate of the next thread
  has no influence on the result at all.
\<close>

theorem more_threads_in_cta_z_against_x:
  "\<not> more_threads_in_cta
       ((kernel_info_t_ctor \<lparr>x = 1, y = 1, z = 1\<rparr> \<lparr>x = 1, y = 1, z = 2\<rparr> NULL)
          \<lparr>m_next_tid := \<lparr>x = 0, y = 0, z = 1\<rparr>\<rparr>)
   \<and> tid_inside_block
       ((kernel_info_t_ctor \<lparr>x = 1, y = 1, z = 1\<rparr> \<lparr>x = 1, y = 1, z = 2\<rparr> NULL)
          \<lparr>m_next_tid := \<lparr>x = 0, y = 0, z = 1\<rparr>\<rparr>)
   \<and> more_threads_in_cta (k\<lparr>m_next_tid := (m_next_tid k)\<lparr>x := v\<rparr>\<rparr>) = more_threads_in_cta k"
  by (simp add: more_threads_in_cta_def tid_inside_block_def kernel_info_t_ctor_def Let_def)

subsection \<open>do_atomic\<close>

text \<open>
  C4, as the specification states it: on every instruction that is atomic and not empty,
  \<^verbatim>\<open>do_atomic()\<close> invokes the callbacks whose \<open>thread\<close> is not null, each once. The code does
  not return on all of them: on a width-4 instruction with \<^verbatim>\<open>add_callback(0, NULL, 2, 3)\<close>,
  \<^verbatim>\<open>add_callback(1, 7, 8, 9)\<close> and \<^verbatim>\<open>issue(1, 0, 0)\<close>, which is atomic and not empty, the
  loop calls through the null function pointer of lane 0.
\<close>

theorem do_atomic_null_function_counterexample:
  "and_then (and_then (and_then (and_then (warp_inst_t_ctor 4 zeroed_storage)
      (add_callback 0 0 2 3)) (add_callback 1 7 8 9)) (issue 1 0 0)) (Inr \<circ> isatomic)
     = Inr True
   \<and> and_then (and_then (and_then (and_then (warp_inst_t_ctor 4 zeroed_storage)
      (add_callback 0 0 2 3)) (add_callback 1 7 8 9)) (issue 1 0 0)) (Inr \<circ> empty)
     = Inr False
   \<and> and_then (and_then (and_then (and_then (warp_inst_t_ctor 4 zeroed_storage)
      (add_callback 0 0 2 3)) (add_callback 1 7 8 9)) (issue 1 0 0)) do_atomic
     = Inl UndefinedBehaviour"
  by code_simp

text \<open>
  C4, amended: on an instruction that is atomic and not empty, \<^verbatim>\<open>do_atomic()\<close> returns
  exactly when every element of the per-lane array with a non-null \<open>thread\<close> has a non-null
  function. It has then made one call for each element whose \<open>thread\<close> is not null, in the
  order of the lanes, each with the function, the instruction and the thread stored in that
  element; elements with a null \<open>thread\<close> get no call. Otherwise the call through the null
  function pointer is undefined behaviour. The active mask plays no part.
\<close>

theorem do_atomic_invokes:
  assumes "isatomic w" and "\<not> empty w"
  shows "do_atomic w =
           (if list_all callable (m_per_scalar_thread w)
            then Inr (map invocation_of
                        (filter (\<lambda>t. thread (callback t) \<noteq> NULL) (m_per_scalar_thread w)))
            else Inl UndefinedBehaviour)
         \<and> do_atomic (w\<lparr>warp_active_mask := lanes\<rparr>) = do_atomic w"
  using assms by (simp add: do_atomic_def do_atomic_loop_eq isatomic_def empty_def)

theorem do_atomic_invokes_witness:
  "isatomic atomic_example \<and> \<not> empty atomic_example
   \<and> list_all callable (m_per_scalar_thread atomic_example)
   \<and> active 3 atomic_example = Inr False
   \<and> do_atomic atomic_example = Inr [Invoke 7 8 9, Invoke 4 5 6]"
proof -
  have h1: "isatomic atomic_example" by code_simp
  have h2: "\<not> empty atomic_example" by code_simp
  have h3: "active 3 atomic_example = Inr False" by code_simp
  have h4: "list_all callable (m_per_scalar_thread atomic_example)" by code_simp
  have e: "map invocation_of
             (filter (\<lambda>t. thread (callback t) \<noteq> NULL) (m_per_scalar_thread atomic_example))
           = [Invoke 7 8 9, Invoke 4 5 6]"
    by code_simp
  from do_atomic_invokes [OF h1 h2, of 0] e h1 h2 h3 h4 show ?thesis
    by simp
qed

subsection \<open>set_addr and get_addr\<close>

text \<open>
  C5: for every lane \<open>n\<close> below the width and every address \<open>a\<close>, \<^verbatim>\<open>set_addr(n, a)\<close> followed
  by \<^verbatim>\<open>get_addr(n)\<close> returns \<open>a\<close>, whatever the active mask is; after \<^verbatim>\<open>set_addr\<close> the per-lane
  array is allocated and has as many elements as the warp has lanes.
\<close>

theorem set_addr_get_addr:
  assumes "warp_inst_inv w" and "n < m_warp_size w"
  shows "and_then (set_addr n a w) (get_addr n) = Inr a
         \<and> and_then (set_addr n a w) (Inr \<circ> m_per_scalar_thread_valid) = Inr True
         \<and> and_then (set_addr n a w) (Inr \<circ> length \<circ> m_per_scalar_thread)
             = Inr (unat (m_warp_size w))"
  using lane_in_range [OF assms] assms(1)
  by (auto simp: set_addr_def get_addr_def Let_def warp_inst_inv_def)

theorem set_addr_get_addr_witness:
  "warp_inst_inv (projr (warp_inst_t_ctor 8 zeroed_storage))
   \<and> 5 < m_warp_size (projr (warp_inst_t_ctor 8 zeroed_storage))
   \<and> active 5 (projr (warp_inst_t_ctor 8 zeroed_storage)) = Inr False
   \<and> and_then (set_addr 5 4096 (projr (warp_inst_t_ctor 8 zeroed_storage))) (get_addr 5)
       = Inr 4096
   \<and> and_then (set_addr 5 4096 (projr (warp_inst_t_ctor 8 zeroed_storage)))
       (Inr \<circ> length \<circ> m_per_scalar_thread) = Inr 8"
proof -
  have h1: "warp_inst_inv (projr (warp_inst_t_ctor 8 zeroed_storage))"
    by code_simp
  have h2: "5 < m_warp_size (projr (warp_inst_t_ctor 8 zeroed_storage))"
    by code_simp
  have h3: "active 5 (projr (warp_inst_t_ctor 8 zeroed_storage)) = Inr False"
    by code_simp
  have h4: "unat (m_warp_size (projr (warp_inst_t_ctor 8 zeroed_storage))) = 8"
    by code_simp
  from set_addr_get_addr [OF h1 h2, of 4096] h1 h2 h3 h4 show ?thesis
    by simp
qed

subsection \<open>has_callback\<close>

text \<open>
  C6: for every lane \<open>n\<close> below the width, \<^verbatim>\<open>has_callback(n)\<close> returns, and its result is
  true exactly when lane \<open>n\<close> is active, the per-lane array is allocated and the function
  stored for lane \<open>n\<close> is not null. When the array is not allocated the result is false,
  not a failure.
\<close>

theorem has_callback_iff:
  assumes "warp_inst_inv w" and "n < m_warp_size w"
  shows "has_callback n w =
           Inr (active n w = Inr True \<and> m_per_scalar_thread_valid w
                \<and> function_ptr (callback (m_per_scalar_thread w ! unat n)) \<noteq> NULL)
         \<and> (\<not> m_per_scalar_thread_valid w \<longrightarrow> has_callback n w = Inr False)"
  using lane_in_range [OF assms] assms(1)
  by (auto simp: has_callback_def active_def warp_inst_inv_def)

text \<open>
  On \<open>atomic_example\<close> lane 1 is active with a function registered, lane 3 has a function but
  is not active, lane 0 is active without a function; and a fresh instruction with lane 0
  issued has no per-lane array.
\<close>

theorem has_callback_iff_witness:
  "warp_inst_inv atomic_example \<and> 1 < m_warp_size atomic_example
   \<and> has_callback 1 atomic_example = Inr True
   \<and> has_callback 3 atomic_example = Inr False
   \<and> has_callback 0 atomic_example = Inr False
   \<and> \<not> m_per_scalar_thread_valid
         (projr (and_then (warp_inst_t_ctor 4 zeroed_storage) (issue 1 0 0)))
   \<and> has_callback 0 (projr (and_then (warp_inst_t_ctor 4 zeroed_storage) (issue 1 0 0)))
       = Inr False"
proof -
  let ?u = "projr (and_then (warp_inst_t_ctor 4 zeroed_storage) (issue 1 0 0))"
  have h1: "warp_inst_inv atomic_example" by code_simp
  have h2: "1 < m_warp_size atomic_example" "3 < m_warp_size atomic_example"
    "0 < m_warp_size atomic_example"
    by code_simp+
  have e1: "active 1 atomic_example = Inr True \<and> m_per_scalar_thread_valid atomic_example
      \<and> function_ptr (callback (m_per_scalar_thread atomic_example ! unat (1 :: 32 word))) \<noteq> NULL"
    by code_simp
  have e3: "active 3 atomic_example \<noteq> Inr True" by code_simp
  have e0: "function_ptr (callback (m_per_scalar_thread atomic_example ! unat (0 :: 32 word))) = NULL"
    by code_simp
  have u1: "warp_inst_inv ?u" by code_simp
  have u2: "0 < m_warp_size ?u" by code_simp
  have u3: "\<not> m_per_scalar_thread_valid ?u" by code_simp
  from has_callback_iff [OF h1 h2(1)] has_callback_iff [OF h1 h2(2)]
    has_callback_iff [OF h1 h2(3)] has_callback_iff [OF u1 u2] h1 h2 e1 e3 e0 u3
  show ?thesis by simp
qed

subsection \<open>get_next_thread_id\<close>

text \<open>
  C7: \<^verbatim>\<open>get_next_thread_id()\<close> returns \<open>x + bx * y + bx * by * z\<close> for the next thread
  coordinate \<open>(x, y, z)\<close> and the block extents \<open>(bx, by, bz)\<close>, in the arithmetic of its
  result type \<^verbatim>\<open>unsigned\<close>: it is that sum modulo \<open>2 ^ 32\<close>, hence the sum itself whenever
  the sum is below \<open>2 ^ 32\<close>. With block extents \<open>(4, 4, 1)\<close> and coordinate \<open>(3, 1, 0)\<close>
  it returns 7.
\<close>

theorem get_next_thread_id_linear:
  "get_next_thread_id k =
     x (m_next_tid k) + x (m_block_dim k) * y (m_next_tid k)
       + x (m_block_dim k) * y (m_block_dim k) * z (m_next_tid k)
   \<and> unat (get_next_thread_id k) =
     (unat (x (m_next_tid k)) + unat (x (m_block_dim k)) * unat (y (m_next_tid k))
       + unat (x (m_block_dim k)) * unat (y (m_block_dim k)) * unat (z (m_next_tid k))) mod 2 ^ 32
   \<and> (unat (x (m_next_tid k)) + unat (x (m_block_dim k)) * unat (y (m_next_tid k))
       + unat (x (m_block_dim k)) * unat (y (m_block_dim k)) * unat (z (m_next_tid k)) < 2 ^ 32
      \<longrightarrow> unat (get_next_thread_id k) =
        unat (x (m_next_tid k)) + unat (x (m_block_dim k)) * unat (y (m_next_tid k))
          + unat (x (m_block_dim k)) * unat (y (m_block_dim k)) * unat (z (m_next_tid k)))
   \<and> get_next_thread_id
       ((kernel_info_t_ctor g \<lparr>x = 4, y = 4, z = 1\<rparr> e)\<lparr>m_next_tid := \<lparr>x = 3, y = 1, z = 0\<rparr>\<rparr>) = 7"
proof -
  have m: "unat (get_next_thread_id k) =
     (unat (x (m_next_tid k)) + unat (x (m_block_dim k)) * unat (y (m_next_tid k))
       + unat (x (m_block_dim k)) * unat (y (m_block_dim k)) * unat (z (m_next_tid k))) mod 2 ^ 32"
    by (simp add: get_next_thread_id_def unat_word_ariths mod_simps)
  have e: "get_next_thread_id
       ((kernel_info_t_ctor g \<lparr>x = 4, y = 4, z = 1\<rparr> e)\<lparr>m_next_tid := \<lparr>x = 3, y = 1, z = 0\<rparr>\<rparr>) = 7"
    by (simp add: get_next_thread_id_def kernel_info_t_ctor_def Let_def)
  show ?thesis
    using m e by (simp add: get_next_thread_id_def)
qed

theorem get_next_thread_id_linear_witness:
  "unat (3 :: 32 word) + unat (4 :: 32 word) * unat (1 :: 32 word)
     + unat (4 :: 32 word) * unat (4 :: 32 word) * unat (0 :: 32 word) < (2 :: nat) ^ 32
   \<and> unat (get_next_thread_id
       ((kernel_info_t_ctor \<lparr>x = 1, y = 1, z = 1\<rparr> \<lparr>x = 4, y = 4, z = 1\<rparr> NULL)
          \<lparr>m_next_tid := \<lparr>x = 3, y = 1, z = 0\<rparr>\<rparr>)) = 7"
  using get_next_thread_id_linear
    [of "(kernel_info_t_ctor \<lparr>x = 1, y = 1, z = 1\<rparr> \<lparr>x = 4, y = 4, z = 1\<rparr> NULL)
          \<lparr>m_next_tid := \<lparr>x = 3, y = 1, z = 0\<rparr>\<rparr>"]
  by (simp add: kernel_info_t_ctor_def Let_def)

subsection \<open>Comparison of memory spaces\<close>

text \<open>
  C8: two memory spaces are equal by \<^verbatim>\<open>operator==\<close> exactly when their tags and their banks
  are the same; \<^verbatim>\<open>operator<\<close> is the lexicographic strict order, tag first (by enumerator
  value), then bank. So two instances built from the same tag with the same \<^verbatim>\<open>set_bank\<close>
  value are equal, they are equal only if the banks are, and with the same tag the one
  with the smaller bank is the lesser.
\<close>

theorem memory_space_t_compare:
  "(memory_space_t_eq a b \<longleftrightarrow> m_type a = m_type b \<and> m_bank a = m_bank b)
   \<and> (memory_space_t_less a b \<longleftrightarrow>
        memory_space_value (m_type a) < memory_space_value (m_type b)
          \<or> (m_type a = m_type b \<and> m_bank a < m_bank b))
   \<and> memory_space_t_eq (set_bank n (memory_space_t_ctor t)) (set_bank n (memory_space_t_ctor t))
   \<and> (memory_space_t_eq (set_bank n (memory_space_t_ctor t)) (set_bank n' (memory_space_t_ctor t))
        \<longleftrightarrow> n = n')
   \<and> (memory_space_t_less (set_bank n (memory_space_t_ctor t)) (set_bank n' (memory_space_t_ctor t))
        \<longleftrightarrow> n < n')"
  by (auto simp: memory_space_t_eq_def memory_space_t_less_def memory_space_value_inj
      set_bank_def memory_space_t_ctor_def)

theorem memory_space_t_compare_witness:
  "memory_space_t_eq (set_bank 2 (memory_space_t_ctor const_space))
     (set_bank 2 (memory_space_t_ctor const_space))
   \<and> \<not> memory_space_t_eq (set_bank 2 (memory_space_t_ctor const_space))
       (set_bank 3 (memory_space_t_ctor const_space))
   \<and> memory_space_t_less (set_bank 2 (memory_space_t_ctor const_space))
       (set_bank 3 (memory_space_t_ctor const_space))
   \<and> \<not> memory_space_t_less (set_bank 3 (memory_space_t_ctor const_space))
       (set_bank 2 (memory_space_t_ctor const_space))"
  using memory_space_t_compare [of "memory_space_t_ctor const_space"
      "memory_space_t_ctor const_space" 2 const_space 3]
    memory_space_t_compare [of "memory_space_t_ctor const_space"
      "memory_space_t_ctor const_space" 3 const_space 2]
  by simp

subsection \<open>The constructor of inst_t\<close>

text \<open>
  C9: the constructor of \<open>inst_t\<close> clears \<open>sizeof(unsigned)\<close> bytes of \<open>out\<close> and of \<open>in\<close>,
  which is the first of the four elements of each; the other three elements of \<open>out\<close> and
  of \<open>in\<close> hold after the constructor what the storage held before it.
\<close>

theorem inst_t_ctor_first_slot_only:
  assumes "length (out raw) = 4" and "length (in' raw) = 4"
  shows "out (inst_t_ctor raw) = 0 # tl (out raw) \<and> in' (inst_t_ctor raw) = 0 # tl (in' raw)"
  using assms by (simp add: inst_t_ctor_def memset_array_first)

theorem inst_t_ctor_first_slot_only_witness:
  "length (out (zeroed_storage\<lparr>out := [1, 2, 3, 4], in' := [5, 6, 7, 8]\<rparr>)) = 4
   \<and> length (in' (zeroed_storage\<lparr>out := [1, 2, 3, 4], in' := [5, 6, 7, 8]\<rparr>)) = 4
   \<and> out (inst_t_ctor (zeroed_storage\<lparr>out := [1, 2, 3, 4], in' := [5, 6, 7, 8]\<rparr>)) = [0, 2, 3, 4]
   \<and> in' (inst_t_ctor (zeroed_storage\<lparr>out := [1, 2, 3, 4], in' := [5, 6, 7, 8]\<rparr>)) = [0, 6, 7, 8]"
  using inst_t_ctor_first_slot_only [of "zeroed_storage\<lparr>out := [1, 2, 3, 4], in' := [5, 6, 7, 8]\<rparr>"]
  by simp

subsection \<open>num_blocks and threads_per_cta\<close>

text \<open>
  C10: \<^verbatim>\<open>num_blocks()\<close> and \<^verbatim>\<open>threads_per_cta()\<close> return the product of the three extents
  modulo \<open>2 ^ 32\<close>, the product being taken in 32 bits before the conversion to \<^verbatim>\<open>size_t\<close>;
  when the exact product is \<open>2 ^ 32\<close> or more, the result is smaller than it.
\<close>

theorem num_blocks_wraps:
  "unat (num_blocks k) =
     (unat (x (m_grid_dim k)) * unat (y (m_grid_dim k)) * unat (z (m_grid_dim k))) mod 2 ^ 32
   \<and> unat (threads_per_cta k) =
     (unat (x (m_block_dim k)) * unat (y (m_block_dim k)) * unat (z (m_block_dim k))) mod 2 ^ 32
   \<and> (2 ^ 32 \<le> unat (x (m_grid_dim k)) * unat (y (m_grid_dim k)) * unat (z (m_grid_dim k))
        \<longrightarrow> unat (num_blocks k)
              < unat (x (m_grid_dim k)) * unat (y (m_grid_dim k)) * unat (z (m_grid_dim k)))
   \<and> (2 ^ 32 \<le> unat (x (m_block_dim k)) * unat (y (m_block_dim k)) * unat (z (m_block_dim k))
        \<longrightarrow> unat (threads_per_cta k)
              < unat (x (m_block_dim k)) * unat (y (m_block_dim k)) * unat (z (m_block_dim k)))"
proof -
  have nb: "unat (num_blocks k) =
     (unat (x (m_grid_dim k)) * unat (y (m_grid_dim k)) * unat (z (m_grid_dim k))) mod 2 ^ 32"
    by (simp add: num_blocks_def unat_ucast_32_64 unat_word_ariths mod_simps)
  have tc: "unat (threads_per_cta k) =
     (unat (x (m_block_dim k)) * unat (y (m_block_dim k)) * unat (z (m_block_dim k))) mod 2 ^ 32"
    by (simp add: threads_per_cta_def unat_ucast_32_64 unat_word_ariths mod_simps)
  have lt: "2 ^ 32 \<le> p \<Longrightarrow> p mod 2 ^ 32 < p" for p :: nat
    by (rule less_le_trans [of _ "2 ^ 32"]) simp_all
  show ?thesis
    using lt nb tc by presburger
qed

theorem num_blocks_wraps_witness:
  "(2 :: nat) ^ 32 \<le> 65536 * 65536 * 1
   \<and> num_blocks (kernel_info_t_ctor \<lparr>x = 65536, y = 65536, z = 1\<rparr> \<lparr>x = 65536, y = 65536, z = 2\<rparr> NULL) = 0
   \<and> threads_per_cta (kernel_info_t_ctor \<lparr>x = 65536, y = 65536, z = 1\<rparr> \<lparr>x = 65536, y = 65536, z = 2\<rparr> NULL) = 0"
proof -
  let ?k = "kernel_info_t_ctor \<lparr>x = 65536, y = 65536, z = 1\<rparr> \<lparr>x = 65536, y = 65536, z = 2\<rparr> NULL"
  have g: "unat (x (m_grid_dim ?k)) * unat (y (m_grid_dim ?k)) * unat (z (m_grid_dim ?k))
            = 2 ^ 32"
    by (simp add: kernel_info_t_ctor_def Let_def)
  have b: "unat (x (m_block_dim ?k)) * unat (y (m_block_dim ?k)) * unat (z (m_block_dim ?k))
            = 2 * 2 ^ 32"
    by (simp add: kernel_info_t_ctor_def Let_def)
  from num_blocks_wraps [of ?k] have "unat (num_blocks ?k) = 0" "unat (threads_per_cta ?k) = 0"
    unfolding g b by simp_all
  then show ?thesis
    by (simp add: unat_eq_0)
qed

end
